theory Spec2Isabelle
  imports Complex_Main
begin

section \<open>The grid canvas of napari (\<^verbatim>\<open>napari/components/grid.py\<close>)\<close>

text \<open>
  \<^verbatim>\<open>GridCanvas\<close> holds three configuration fields and answers two queries:
  \<^verbatim>\<open>actual_size(nlayers)\<close>, the number of rows and columns of the grid, and
  \<^verbatim>\<open>position(index, nlayers)\<close>, the cell of one layer.

  Python integers are unbounded and are modelled by \<open>int\<close>. The source computes its
  ceilings through numpy's float64 (\<^verbatim>\<open>np.ceil(a / b).astype(int)\<close>,
  \<^verbatim>\<open>np.ceil(np.sqrt(n)).astype(int)\<close>). A finite float64 is modelled by the real number
  it approximates, which gives the same ceilings as long as the layer count stays below
  \<open>2 ^ 52\<close>; the values numpy produces where a real number does not exist (a division by
  zero, the square root of a negative number) are kept apart as \<open>PosInf\<close>, \<open>NegInf\<close> and
  \<open>NaN\<close>.
\<close>

subsection \<open>Errors and float64 values\<close>

datatype error = ZeroDivisionError

datatype float64 = Finite real | PosInf | NegInf | NaN

text \<open>Python's \<^verbatim>\<open>a / b\<close> on two \<^verbatim>\<open>int\<close>s: a float, or \<^verbatim>\<open>ZeroDivisionError\<close>.\<close>

definition truediv :: "int \<Rightarrow> int \<Rightarrow> error + float64" where
  "truediv a b =
     (if b = 0 then Inl ZeroDivisionError
      else Inr (Finite (real_of_int a / real_of_int b)))"

text \<open>Python's \<^verbatim>\<open>a // b\<close> and \<^verbatim>\<open>a % b\<close> on integers: both round towards minus infinity,
  as \<open>div\<close> and \<open>mod\<close> on \<open>int\<close> do, and both raise on a zero divisor.\<close>

definition floordiv :: "int \<Rightarrow> int \<Rightarrow> error + int" where
  "floordiv a b = (if b = 0 then Inl ZeroDivisionError else Inr (a div b))"

definition modulo :: "int \<Rightarrow> int \<Rightarrow> error + int" where
  "modulo a b = (if b = 0 then Inl ZeroDivisionError else Inr (a mod b))"

text \<open>numpy's \<^verbatim>\<open>a / b\<close> with an \<^verbatim>\<open>np.int64\<close> on the left: a zero divisor gives a warning
  and an infinity or a NaN, not an exception.\<close>

definition np_true_divide :: "int \<Rightarrow> int \<Rightarrow> float64" where
  "np_true_divide a b =
     (if b \<noteq> 0 then Finite (real_of_int a / real_of_int b)
      else if 0 < a then PosInf
      else if a < 0 then NegInf
      else NaN)"

definition np_sqrt :: "int \<Rightarrow> float64" where
  "np_sqrt n = (if n < 0 then NaN else Finite (sqrt (real_of_int n)))"

text \<open>\<^verbatim>\<open>np.ceil(x).astype(int)\<close>. The ceiling of an infinity or a NaN is itself, and its
  conversion to \<^verbatim>\<open>int64\<close> depends on the processor (the smallest \<^verbatim>\<open>int64\<close> on x86-64),
  so that conversion is the parameter \<open>cast\<close>; it is applied to no finite value.\<close>

fun ceil_astype_int :: "(float64 \<Rightarrow> int) \<Rightarrow> float64 \<Rightarrow> int" where
  "ceil_astype_int cast (Finite x) = \<lceil>x\<rceil>"
| "ceil_astype_int cast PosInf = cast PosInf"
| "ceil_astype_int cast NegInf = cast NegInf"
| "ceil_astype_int cast NaN = cast NaN"

text \<open>The conversion of x86-64, where every value out of range becomes \<open>- 2 ^ 63\<close>.\<close>

definition cast_x86_64 :: "float64 \<Rightarrow> int" where
  "cast_x86_64 x = - (2 ^ 63)"

subsection \<open>The configuration and its setters\<close>

text \<open>The fields \<^verbatim>\<open>_enabled\<close>, \<^verbatim>\<open>_stride\<close> and \<^verbatim>\<open>_size\<close>; \<open>updates\<close> counts the calls of
  \<^verbatim>\<open>self.events.update()\<close>.\<close>

record GridCanvas =
  enabled :: bool
  stride :: int
  size_rc :: "int \<times> int"
  updates :: nat

text \<open>\<^verbatim>\<open>__init__(self, *, size=(-1, -1), stride=1, enabled=False)\<close>\<close>

definition init :: "int \<times> int \<Rightarrow> int \<Rightarrow> bool \<Rightarrow> GridCanvas" where
  "init sz st en = \<lparr>enabled = en, stride = st, size_rc = sz, updates = 0\<rparr>"

definition init_default :: GridCanvas where
  "init_default = init (- 1, - 1) 1 False"

text \<open>The setters store the value and emit the event; none of them checks the value, so
  each returns the new state and never an error.\<close>

definition enabled_setter :: "GridCanvas \<Rightarrow> bool \<Rightarrow> error + GridCanvas" where
  "enabled_setter g en = Inr (g\<lparr>enabled := en, updates := Suc (updates g)\<rparr>)"

definition size_setter :: "GridCanvas \<Rightarrow> int \<times> int \<Rightarrow> error + GridCanvas" where
  "size_setter g sz = Inr (g\<lparr>size_rc := sz, updates := Suc (updates g)\<rparr>)"

definition stride_setter :: "GridCanvas \<Rightarrow> int \<Rightarrow> error + GridCanvas" where
  "stride_setter g st = Inr (g\<lparr>stride := st, updates := Suc (updates g)\<rparr>)"

subsection \<open>The size of the grid and the cell of a layer\<close>

text \<open>\<^verbatim>\<open>actual_size(self, nlayers=1)\<close>. Only \<^verbatim>\<open>nlayers / abs(self.stride)\<close> divides two
  Python integers and can raise; the later quotients have the \<^verbatim>\<open>np.int64\<close> number of grid
  squares on the left. The result is \<open>(n_row, n_column)\<close>: rows first.\<close>

definition actual_size :: "(float64 \<Rightarrow> int) \<Rightarrow> GridCanvas \<Rightarrow> int \<Rightarrow> error + int \<times> int" where
  "actual_size cast g nlayers =
     (if enabled g then
        (case size_rc g of (n_row, n_column) \<Rightarrow>
         (case truediv nlayers \<bar>stride g\<bar> of
            Inl e \<Rightarrow> Inl e
          | Inr q \<Rightarrow>
             (let n_grid_squares = ceil_astype_int cast q;
                  (n_row, n_column) =
                    (if n_row = - 1 \<and> n_column = - 1 then
                       (let n_column = ceil_astype_int cast (np_sqrt n_grid_squares);
                            n_row = ceil_astype_int cast
                                      (np_true_divide n_grid_squares n_column)
                        in (n_row, n_column))
                     else if n_row = - 1 then
                       (ceil_astype_int cast (np_true_divide n_grid_squares n_column),
                        n_column)
                     else if n_column = - 1 then
                       (n_row,
                        ceil_astype_int cast (np_true_divide n_grid_squares n_row))
                     else (n_row, n_column))
              in Inr (max 1 n_row, max 1 n_column))))
      else Inr (1, 1))"

text \<open>\<^verbatim>\<open>position(self, index, nlayers)\<close>. The grid size is computed first, so an error of
  \<open>actual_size\<close> is the error of \<open>position\<close>; then the index is reversed for a negative
  stride, divided, wrapped and split. Each \<^verbatim>\<open>//\<close> and \<^verbatim>\<open>%\<close> is modelled with its check
  for a zero divisor.\<close>

definition position :: "(float64 \<Rightarrow> int) \<Rightarrow> GridCanvas \<Rightarrow> int \<Rightarrow> int \<Rightarrow> error + int \<times> int" where
  "position cast g index nlayers =
     (if enabled g then
        (case actual_size cast g nlayers of
           Inl e \<Rightarrow> Inl e
         | Inr (n_row, n_column) \<Rightarrow>
            (let adj_i = (if stride g < 0 then nlayers - index - 1 else index) in
             (case floordiv adj_i \<bar>stride g\<bar> of
                Inl e \<Rightarrow> Inl e
              | Inr adj_i \<Rightarrow>
                 (case modulo adj_i (n_row * n_column) of
                    Inl e \<Rightarrow> Inl e
                  | Inr adj_i \<Rightarrow>
                     (case floordiv adj_i n_column of
                        Inl e \<Rightarrow> Inl e
                      | Inr i_row \<Rightarrow>
                         (case modulo adj_i n_column of
                            Inl e \<Rightarrow> Inl e
                          | Inr i_column \<Rightarrow> Inr (i_row, i_column)))))))
      else Inr (0, 0))"

subsection \<open>The specification's formulas\<close>


text \<open>The cell as the specification words it, for a grid of \<open>rows\<close> by \<open>cols\<close> cells: reverse
  the index under a negative stride, divide by \<open>|stride|\<close>, wrap modulo the number of
  cells, and split the slot row-major.\<close>

definition position_spec :: "int \<times> int \<Rightarrow> int \<Rightarrow> int \<Rightarrow> int \<Rightarrow> int \<times> int" where
  "position_spec grid st index nlayers =
     (case grid of (rows, cols) \<Rightarrow>
        (let remapped = (if st < 0 then nlayers - index - 1 else index);
             slot = (remapped div \<bar>st\<bar>) mod (rows * cols)
         in (slot div cols, slot mod cols)))"

subsection \<open>Evaluating the ceiling of a square root\<close>

text \<open>\<open>sqrt_up n k\<close> searches upwards from \<open>k\<close> for the first number whose square reaches
  \<open>n\<close>; from 0 it finds the ceiling of the square root, which makes \<open>actual_size\<close>
  computable on concrete inputs.\<close>

function sqrt_up :: "int \<Rightarrow> int \<Rightarrow> int" where
  "sqrt_up n k = (if k < 0 \<or> n \<le> k * k then k else sqrt_up n (k + 1))"
  by pat_completeness auto
termination
proof (relation "measure (\<lambda>(n, k). nat (n - k * k))")
  show "wf (measure (\<lambda>(n, k). nat (n - k * k)))" by simp
next
  fix n k :: int
  assume "\<not> (k < 0 \<or> n \<le> k * k)"
  then have "0 \<le> k" and "k * k < n" by auto
  then have "k * k < (k + 1) * (k + 1)" by (simp add: algebra_simps)
  with \<open>k * k < n\<close> show "((n, k + 1), (n, k)) \<in> measure (\<lambda>(n, k). nat (n - k * k))"
    by simp
qed

declare sqrt_up.simps [simp del]

section \<open>Auxiliary facts\<close>

subsection \<open>The square root search\<close>

lemma sqrt_up_least:
  "0 \<le> k \<Longrightarrow> (k = 0 \<or> (k - 1) * (k - 1) < n) \<Longrightarrow>
     0 \<le> sqrt_up n k \<and> n \<le> sqrt_up n k * sqrt_up n k \<and>
     (sqrt_up n k = 0 \<or> (sqrt_up n k - 1) * (sqrt_up n k - 1) < n)"
proof (induction n k rule: sqrt_up.induct)
  case (1 n k)
  show ?case
  proof (cases "n \<le> k * k")
    case True
    with "1.prems" show ?thesis by (simp add: sqrt_up.simps [of n k])
  next
    case False
    with "1.prems" have "\<not> (k < 0 \<or> n \<le> k * k)" by simp
    moreover have "0 \<le> k + 1" using "1.prems" by simp
    moreover have "k + 1 = 0 \<or> (k + 1 - 1) * (k + 1 - 1) < n" using False by simp
    ultimately have "0 \<le> sqrt_up n (k + 1) \<and> n \<le> sqrt_up n (k + 1) * sqrt_up n (k + 1) \<and>
     (sqrt_up n (k + 1) = 0 \<or> (sqrt_up n (k + 1) - 1) * (sqrt_up n (k + 1) - 1) < n)"
      by (rule "1.IH")
    moreover have "sqrt_up n k = sqrt_up n (k + 1)"
      using False "1.prems" by (simp add: sqrt_up.simps [of n k])
    ultimately show ?thesis by simp
  qed
qed

lemma ceiling_sqrt_unique:
  assumes "0 \<le> r" and "n \<le> r * r" and "r = 0 \<or> (r - 1) * (r - 1) < n" and "0 \<le> n"
  shows "\<lceil>sqrt (real_of_int n)\<rceil> = r"
proof (cases "r = 0")
  case True
  with assms have "n = 0" by simp
  with True show ?thesis by simp
next
  case False
  with assms have lo: "(r - 1) * (r - 1) < n" and pos: "0 < r" by auto
  have "(real_of_int (r - 1))\<^sup>2 < real_of_int n"
    using lo by (metis of_int_less_iff of_int_mult power2_eq_square)
  then have a: "real_of_int r - 1 < sqrt (real_of_int n)"
    using real_less_rsqrt by fastforce
  have "real_of_int n \<le> (real_of_int r)\<^sup>2"
    using assms(2) by (metis of_int_le_iff of_int_mult power2_eq_square)
  then have b: "sqrt (real_of_int n) \<le> real_of_int r"
    using pos by (intro real_le_lsqrt) simp_all
  from a b show ?thesis by (rule ceiling_unique)
qed

lemma ceiling_sqrt: "0 \<le> n \<Longrightarrow> \<lceil>sqrt (real_of_int n)\<rceil> = sqrt_up n 0"
  using sqrt_up_least [of 0 n] by (intro ceiling_sqrt_unique) simp_all

lemma ceil_sqrt_code [code_unfold]:
  "ceil_astype_int cast (np_sqrt n) = (if n < 0 then cast NaN else sqrt_up n 0)"
  by (simp add: np_sqrt_def ceiling_sqrt)

subsection \<open>The grid size and the cell\<close>



lemma actual_size_total:
  "stride g \<noteq> 0 \<Longrightarrow> \<exists>r c. actual_size cast g nlayers = Inr (r, c) \<and> 1 \<le> r \<and> 1 \<le> c"
  by (simp add: actual_size_def truediv_def Let_def split: prod.splits)

lemma actual_size_zero_stride:
  "enabled g \<Longrightarrow> stride g = 0 \<Longrightarrow> actual_size cast g nlayers = Inl ZeroDivisionError"
  by (simp add: actual_size_def truediv_def split: prod.splits)

lemma position_zero_stride:
  "enabled g \<Longrightarrow> stride g = 0 \<Longrightarrow> position cast g index nlayers = Inl ZeroDivisionError"
  by (simp add: position_def actual_size_zero_stride)

lemma position_eq_spec:
  assumes "enabled g" and "stride g \<noteq> 0" and "actual_size cast g nlayers = Inr (rows, cols)"
  shows "position cast g index nlayers = Inr (position_spec (rows, cols) (stride g) index nlayers)"
proof -
  from actual_size_total [OF assms(2), of cast nlayers] assms(3)
  have "1 \<le> rows" and "1 \<le> cols" by simp_all
  then have "rows * cols \<noteq> 0" and "cols \<noteq> 0" by simp_all
  with assms show ?thesis
    by (simp add: position_def position_spec_def floordiv_def modulo_def Let_def)
qed

lemma slot_in_grid:
  fixes rows cols a :: int
  assumes "1 \<le> rows" and "1 \<le> cols"
  defines "slot \<equiv> a mod (rows * cols)"
  shows "0 \<le> slot div cols \<and> slot div cols < rows \<and> 0 \<le> slot mod cols \<and> slot mod cols < cols"
proof -
  have m: "0 < rows * cols" using assms by simp
  have s0: "0 \<le> slot" and s1: "slot < rows * cols"
    using m by (simp_all add: slot_def)
  have c: "0 < cols" using assms(2) by simp
  have "cols * (slot div cols) + slot mod cols = slot" by simp
  moreover have "0 \<le> slot mod cols" using c by simp
  ultimately have "cols * (slot div cols) \<le> slot" by linarith
  with s1 have "cols * (slot div cols) < cols * rows" by (simp add: mult.commute)
  with c have "slot div cols < rows" by (simp add: mult_less_cancel_left_pos)
  moreover have "0 \<le> slot div cols" using s0 assms(2) by (simp add: pos_imp_zdiv_nonneg_iff)
  ultimately show ?thesis using assms(2) by simp
qed


lemma position_in_grid:
  assumes "enabled g" and "stride g \<noteq> 0" and "actual_size cast g nlayers = Inr (rows, cols)"
  shows "\<exists>row col. position cast g index nlayers = Inr (row, col) \<and>
           0 \<le> row \<and> row < rows \<and> 0 \<le> col \<and> col < cols"
proof -
  from actual_size_total [OF assms(2), of cast nlayers] assms(3)
  have "1 \<le> rows" and "1 \<le> cols" by simp_all
  then show ?thesis
    using slot_in_grid [of rows cols]
    by (simp add: position_eq_spec [OF assms] position_spec_def Let_def)
qed

lemma actual_size_negate_stride:
  "actual_size cast (g\<lparr>stride := - s\<rparr>) nlayers = actual_size cast (g\<lparr>stride := s\<rparr>) nlayers"
  by (simp add: actual_size_def)

lemma position_reverse:
  assumes "0 < s"
  shows "position cast (g\<lparr>stride := - s\<rparr>) i nlayers
       = position cast (g\<lparr>stride := s\<rparr>) (nlayers - 1 - i) nlayers"
proof (cases "actual_size cast (g\<lparr>stride := s\<rparr>) nlayers")
  case (Inl e)
  then show ?thesis by (simp add: position_def actual_size_negate_stride)
next
  case (Inr rc)
  obtain r c where rc: "rc = (r, c)" by (cases rc)
  have eq: "nlayers - i - 1 = nlayers - 1 - i" by simp
  show ?thesis
    using assms Inr by (simp add: position_def actual_size_negate_stride rc eq)
qed


lemma wrap_collision:
  assumes en: "enabled g" and st: "stride g \<noteq> 0"
    and sz: "actual_size cast g nlayers = Inr (rows, cols)"
    and small: "rows * cols < \<lceil>real_of_int nlayers / real_of_int \<bar>stride g\<bar>\<rceil>"
  shows "\<exists>i j. 0 \<le> i \<and> i < nlayers \<and> 0 \<le> j \<and> j < nlayers \<and> i \<noteq> j \<and>
           position cast g i nlayers = position cast g j nlayers"
proof -
  define s where "s = \<bar>stride g\<bar>"
  define m where "m = rows * cols"
  define b where "b = m * s"
  define idx where "idx a = (if stride g < 0 then nlayers - 1 - a else a)" for a
  from actual_size_total [OF st, of cast nlayers] sz
  have "1 \<le> rows" and "1 \<le> cols" by simp_all
  then have "1 * 1 \<le> rows * cols" by (intro mult_mono) simp_all
  then have m1: "1 \<le> m" by (simp add: m_def)
  have s1: "1 \<le> s" using st by (simp add: s_def)
  have "real_of_int m < real_of_int nlayers / real_of_int s"
    using small by (simp add: less_ceiling_iff m_def s_def del: of_int_abs of_int_mult)
  then have "real_of_int m * real_of_int s < real_of_int nlayers"
    using s1 by (simp add: pos_less_divide_eq)
  then have "real_of_int (m * s) < real_of_int nlayers" by simp
  then have bn: "b < nlayers" unfolding b_def by (simp only: of_int_less_iff)
  have "1 * 1 \<le> m * s" using m1 s1 by (intro mult_mono) simp_all
  then have b1: "1 \<le> b" by (simp add: b_def)
  have remap: "(if stride g < 0 then nlayers - idx a - 1 else idx a) = a" for a
    by (simp add: idx_def)
  have slot0: "((0::int) div s) mod m = 0" by simp
  have slotb: "(b div s) mod m = 0" using s1 by (simp add: b_def)
  have pos: "position cast g (idx a) nlayers
              = Inr (((a div s) mod m) div cols, ((a div s) mod m) mod cols)" for a
    by (simp add: position_eq_spec [OF en st sz] position_spec_def remap Let_def
        s_def m_def del: of_int_abs)
  have "position cast g (idx 0) nlayers = position cast g (idx b) nlayers"
    by (simp only: pos slot0 slotb)
  moreover have "idx 0 \<noteq> idx b" using b1 by (simp add: idx_def)
  moreover have "0 \<le> idx 0 \<and> idx 0 < nlayers \<and> 0 \<le> idx b \<and> idx b < nlayers"
    using b1 bn by (simp add: idx_def)
  ultimately show ?thesis by blast
qed

lemma position_total:
  assumes "stride g \<noteq> 0"
  shows "\<exists>p. position cast g index nlayers = Inr p"
proof (cases "enabled g")
  case True
  from actual_size_total [OF assms, of cast nlayers]
  obtain r c where "actual_size cast g nlayers = Inr (r, c)" by blast
  from position_eq_spec [OF True assms this] show ?thesis by blast
next
  case False
  then show ?thesis by (simp add: position_def)
qed

lemma ceiling_sqrt_numeral: "\<lceil>sqrt (numeral k)\<rceil> = sqrt_up (numeral k) 0"
  using ceiling_sqrt [of "numeral k"] by simp

section \<open>Properties\<close>

text \<open>In what follows the grid is \<open>g\<close>, and \<open>cast\<close> is any conversion of the non-finite
  float64 values to integers: every statement holds on every processor.\<close>

subsection \<open>The cell of a layer\<close>





text \<open>
  C4. For a stride \<open>s > 0\<close>, the cell of index \<open>i\<close> under the stride \<open>- s\<close> is the cell of
  index \<open>nlayers - 1 - i\<close> under the stride \<open>s\<close>, all other fields being the same; both
  calls return a cell and no error.
\<close>

theorem negative_stride_reverses:
  assumes "0 < s"
  shows "\<exists>cell. position cast (g\<lparr>stride := - s\<rparr>) i nlayers = Inr cell \<and>
           position cast (g\<lparr>stride := s\<rparr>) (nlayers - 1 - i) nlayers = Inr cell"
proof -
  from assms have "stride (g\<lparr>stride := - s\<rparr>) \<noteq> 0" by simp
  from position_total [OF this, of cast i nlayers]
  obtain cell where neg: "position cast (g\<lparr>stride := - s\<rparr>) i nlayers = Inr cell" by blast
  have "position cast (g\<lparr>stride := s\<rparr>) (nlayers - 1 - i) nlayers = Inr cell"
    by (simp only: position_reverse [OF assms, symmetric] neg)
  with neg show ?thesis by blast
qed

theorem negative_stride_reverses_witness:
  "(0::int) < 2 \<and>
   position cast_x86_64 ((init (- 1, - 1) 1 True)\<lparr>stride := - 2\<rparr>) 0 7 = Inr (1, 1) \<and>
   position cast_x86_64 ((init (- 1, - 1) 1 True)\<lparr>stride := 2\<rparr>) (7 - 1 - 0) 7 = Inr (1, 1)"
proof -
  have "position cast_x86_64 ((init (- 1, - 1) 1 True)\<lparr>stride := 2\<rparr>) (7 - 1 - 0) 7 = Inr (1, 1)"
    by code_simp
  then show ?thesis
    using negative_stride_reverses [of 2 cast_x86_64 "init (- 1, - 1) 1 True" 0 7] by simp
qed

text \<open>
  C5. For an enabled grid with a nonzero stride whose grid has fewer cells than
  \<open>\<lceil>nlayers / |stride|\<rceil>\<close>, two distinct indices below \<open>nlayers\<close> get the same cell, and
  every index below \<open>nlayers\<close> gets a cell inside the grid.
\<close>

theorem wraparound_shares_cells:
  assumes "enabled g" and "stride g \<noteq> 0"
    and "actual_size cast g nlayers = Inr (rows, cols)"
    and "rows * cols < \<lceil>real_of_int nlayers / real_of_int \<bar>stride g\<bar>\<rceil>"
  shows "(\<exists>i j. 0 \<le> i \<and> i < nlayers \<and> 0 \<le> j \<and> j < nlayers \<and> i \<noteq> j \<and>
            position cast g i nlayers = position cast g j nlayers) \<and>
         (\<forall>i. 0 \<le> i \<and> i < nlayers \<longrightarrow>
            (\<exists>row col. position cast g i nlayers = Inr (row, col) \<and>
               0 \<le> row \<and> row < rows \<and> 0 \<le> col \<and> col < cols))"
  using wrap_collision [OF assms] position_in_grid [OF assms(1,2,3)] by blast

theorem wraparound_shares_cells_witness:
  "enabled (init (2, 2) 2 True) \<and> stride (init (2, 2) 2 True) \<noteq> 0 \<and>
   actual_size cast_x86_64 (init (2, 2) 2 True) 10 = Inr (2, 2) \<and>
   (2::int) * 2 < \<lceil>real_of_int 10 / real_of_int \<bar>stride (init (2, 2) 2 True)\<bar>\<rceil> \<and>
   (\<exists>i j. 0 \<le> i \<and> i < 10 \<and> 0 \<le> j \<and> j < 10 \<and> i \<noteq> j \<and>
      position cast_x86_64 (init (2, 2) 2 True) i 10
        = position cast_x86_64 (init (2, 2) 2 True) j 10) \<and>
   (\<exists>row col. position cast_x86_64 (init (2, 2) 2 True) 9 10 = Inr (row, col) \<and>
      0 \<le> row \<and> row < 2 \<and> 0 \<le> col \<and> col < 2)"
proof -
  let ?g = "init (2, 2) 2 True"
  have en: "enabled ?g" and st: "stride ?g \<noteq> 0" by (simp_all add: init_def)
  have sz: "actual_size cast_x86_64 ?g 10 = Inr (2, 2)" by code_simp
  have small: "(2::int) * 2 < \<lceil>real_of_int 10 / real_of_int \<bar>stride ?g\<bar>\<rceil>"
    by (simp add: init_def)
  from wraparound_shares_cells [OF en st sz small] en st sz small
  show ?thesis by simp
qed

subsection \<open>The size of the grid\<close>





subsection \<open>A disabled grid\<close>

text \<open>
  C6. When the grid is not enabled, \<open>actual_size\<close> returns \<open>(1, 1)\<close> and \<open>position\<close>
  returns \<open>(0, 0)\<close>, whatever the layer count, the index, the stored size and the stored
  stride are (a stored stride of zero included).
\<close>

theorem disabled_single_cell:
  "\<not> enabled g \<Longrightarrow>
     actual_size cast g nlayers = Inr (1, 1) \<and> position cast g index nlayers = Inr (0, 0)"
  by (simp add: actual_size_def position_def)

theorem disabled_single_cell_witness:
  "\<not> enabled (init (7, 0) 0 False) \<and>
   actual_size cast_x86_64 (init (7, 0) 0 False) 0 = Inr (1, 1) \<and>
   position cast_x86_64 (init (7, 0) 0 False) 3 0 = Inr (0, 0)"
  using disabled_single_cell [of "init (7, 0) 0 False" cast_x86_64 0 3]
  by (simp add: init_def)

subsection \<open>Five layers in an automatic grid\<close>

text \<open>
  C8, as stated: enabled, size \<open>(- 1, - 1)\<close>, stride 1 and five layers would give the grid
  size \<open>(3, 2)\<close>. The source returns \<open>(n_row, n_column)\<close>, which is \<open>(2, 3)\<close>: two rows of
  three columns.
\<close>

theorem five_layers_size_counterexample:
  "actual_size cast_x86_64 (init (- 1, - 1) 1 True) 5 \<noteq> Inr (3, 2)"
  by code_simp

text \<open>
  C8, amended: with enabled, size \<open>(- 1, - 1)\<close>, stride 1 and five layers, \<open>actual_size\<close>
  returns \<open>(2, 3)\<close> (rows first), and the cells of the indices 0, 2 and 4 are \<open>(0, 0)\<close>,
  \<open>(0, 2)\<close> and \<open>(1, 1)\<close>.
\<close>

theorem five_layers_scenario:
  "actual_size cast (init (- 1, - 1) 1 True) 5 = Inr (2, 3) \<and>
   position cast (init (- 1, - 1) 1 True) 0 5 = Inr (0, 0) \<and>
   position cast (init (- 1, - 1) 1 True) 2 5 = Inr (0, 2) \<and>
   position cast (init (- 1, - 1) 1 True) 4 5 = Inr (1, 1)"
proof -
  have sz: "actual_size cast (init (- 1, - 1) 1 True) 5 = Inr (2, 3)"
    by (simp add: actual_size_def init_def truediv_def np_sqrt_def np_true_divide_def
        ceiling_sqrt_numeral sqrt_up.simps)
  then show ?thesis
    by (simp add: position_def floordiv_def modulo_def init_def)
qed

subsection \<open>A stride of zero\<close>

text \<open>
  C9, as stated: setting the stride to 0 would raise an error and leave the configuration
  as it was. The setter of the source checks nothing: from the default configuration it
  returns normally and the stored stride changes from 1 to 0.
\<close>

theorem stride_setter_zero_counterexample:
  "\<not> isl (stride_setter init_default 0) \<and>
   stride init_default = 1 \<and>
   stride (projr (stride_setter init_default 0)) = 0"
  by (simp add: stride_setter_def init_default_def init_def)

text \<open>
  C9, amended: setting the stride to 0 raises no error; it stores 0 as the stride and
  leaves \<open>enabled\<close> and the size as they were.
\<close>

theorem stride_setter_zero_stored:
  "\<exists>g'. stride_setter g 0 = Inr g' \<and> stride g' = 0 \<and>
         enabled g' = enabled g \<and> size_rc g' = size_rc g"
  by (simp add: stride_setter_def)

text \<open>
  C10. The stride setter accepts 0 and stores it, and in the resulting state of an enabled
  grid both \<open>actual_size\<close> and \<open>position\<close> end in \<^verbatim>\<open>ZeroDivisionError\<close>, for every layer
  count and index: the division \<^verbatim>\<open>nlayers / abs(self.stride)\<close> raises. Such a state is
  reached from the default configuration through the setters alone, as the instance
  after the theorem shows.
\<close>

theorem zero_stride_divides_by_zero:
  "enabled g \<Longrightarrow>
     \<exists>g'. stride_setter g 0 = Inr g' \<and> stride g' = 0 \<and>
          actual_size cast g' nlayers = Inl ZeroDivisionError \<and>
          position cast g' index nlayers = Inl ZeroDivisionError"
  by (simp add: stride_setter_def actual_size_zero_stride position_zero_stride)

theorem zero_stride_divides_by_zero_witness:
  "enabled_setter init_default True
     = Inr \<lparr>enabled = True, stride = 1, size_rc = (- 1, - 1), updates = 1\<rparr> \<and>
   enabled \<lparr>enabled = True, stride = 1, size_rc = (- 1, - 1), updates = 1\<rparr> \<and>
   stride_setter \<lparr>enabled = True, stride = 1, size_rc = (- 1, - 1), updates = 1\<rparr> 0
     = Inr \<lparr>enabled = True, stride = 0, size_rc = (- 1, - 1), updates = 2\<rparr> \<and>
   actual_size cast_x86_64 \<lparr>enabled = True, stride = 0, size_rc = (- 1, - 1), updates = 2\<rparr> 1
     = Inl ZeroDivisionError \<and>
   position cast_x86_64 \<lparr>enabled = True, stride = 0, size_rc = (- 1, - 1), updates = 2\<rparr> 0 1
     = Inl ZeroDivisionError"
  using zero_stride_divides_by_zero
    [of "\<lparr>enabled = True, stride = 1, size_rc = (- 1, - 1), updates = 1\<rparr>" cast_x86_64 1 0]
  by (simp add: enabled_setter_def stride_setter_def init_default_def init_def numeral_2_eq_2)

end
